theory Spec2Isabelle
  imports Complex_Main "HOL-Library.Log_Nat" "HOL-Library.Sublist"
begin

section \<open>Values\<close>

text \<open>
  The values \<^verbatim>\<open>JSON.parse\<close> produces and \<^verbatim>\<open>JSON.stringify\<close> consumes. \<open>JNum\<close>
  holds the rational value of a finite IEEE-754 binary64; \<open>JInfinity\<close> is the Number
  \<^verbatim>\<open>Infinity\<close> (\<open>True\<close>) or \<^verbatim>\<open>-Infinity\<close> (\<open>False\<close>), which the parser returns
  for a literal beyond the binary64 range such as \<^verbatim>\<open>1e999\<close>. An object is the list of
  its own properties (with distinct keys) in property order. A property that is absent
  reads as \<^verbatim>\<open>undefined\<close>, which is \<open>None\<close> of \<open>json option\<close>.
\<close>

datatype json =
    JNull
  | JBool bool
  | JNum rat
  | JInfinity bool
  | JStr string
  | JArr "json list"
  | JObj "(string \<times> json) list"

datatype error = TypeError

section \<open>IEEE-754 binary64 multiplication\<close>

text \<open>
  \<^verbatim>\<open>Math.random() * 100\<close> is a multiplication of two Number values: the exact product
  rounded to the nearest binary64, ties to the even significand. \<open>binade x\<close> is
  \<open>\<lfloor>log\<^sub>2 x\<rfloor>\<close> for \<open>x > 0\<close>; a binary64 with that exponent is a multiple of
  \<open>2 powi (binade x - 52)\<close>, and below the normal range (\<open>2 powi -1022\<close>) of
  \<open>2 powi -1074\<close>.
\<close>

definition round_half_even :: "rat \<Rightarrow> int" where
  "round_half_even x =
     (let f = \<lfloor>x\<rfloor>; d = x - of_int f
      in if d < 1 / 2 then f
         else if 1 / 2 < d then f + 1
         else if even f then f else f + 1)"

definition binade :: "rat \<Rightarrow> int" where
  "binade x = (if 1 \<le> x then bitlen \<lfloor>x\<rfloor> - 1 else - bitlen (\<lceil>1 / x\<rceil> - 1))"

definition ulp :: "rat \<Rightarrow> rat" where
  "ulp x = 2 powi (max (binade x) (- 1022) - 52)"

definition round_double :: "rat \<Rightarrow> rat" where
  "round_double x =
     (if x = 0 then 0
      else sgn x * of_int (round_half_even (\<bar>x\<bar> / ulp \<bar>x\<bar>)) * ulp \<bar>x\<bar>)"

definition is_double :: "rat \<Rightarrow> bool" where
  "is_double x \<longleftrightarrow> round_double x = x \<and> \<bar>x\<bar> < 2 powi 1024"

definition fmul :: "rat \<Rightarrow> rat \<Rightarrow> rat" where
  "fmul x y = round_double (x * y)"

text \<open>
  What \<^verbatim>\<open>Math.random()\<close> may return: a Number value, greater than or equal to 0 and
  strictly less than 1.
\<close>

definition Math_random :: "rat \<Rightarrow> bool" where
  "Math_random r \<longleftrightarrow> is_double r \<and> 0 \<le> r \<and> r < 1"

section \<open>The customer model and the store\<close>

text \<open>
  \<^verbatim>\<open>interface Customer { id: string; name: string; email: string; healthScore: number }\<close>.
  The handler fills \<^verbatim>\<open>name\<close> and \<^verbatim>\<open>email\<close> from \<^verbatim>\<open>req.body\<close>, which is typed
  \<^verbatim>\<open>any\<close>: at run time they hold whatever the body held, or \<^verbatim>\<open>undefined\<close>.
  The store is the module-level array \<^verbatim>\<open>customers\<close>, initially \<^verbatim>\<open>[]\<close>.
\<close>

record customer =
  id_c :: string
  name :: "json option"
  email :: "json option"
  healthScore :: rat

type_synonym store = "customer list"

definition customers_init :: store where
  "customers_init = []"

section \<open>Responses\<close>

datatype payload = Json json | Text string | ErrorPage error

record response =
  status :: nat
  payload :: payload

text \<open>
  \<^verbatim>\<open>res.json(v)\<close> sends \<^verbatim>\<open>JSON.stringify(v)\<close>. \<open>stringify\<close> is the value a client
  parses from that text: a Number that is not finite is written as \<^verbatim>\<open>null\<close>, at any
  depth, and a property whose value is \<^verbatim>\<open>undefined\<close> is left out.
\<close>

primrec stringify :: "json \<Rightarrow> json" where
  "stringify JNull = JNull"
| "stringify (JBool b) = JBool b"
| "stringify (JNum n) = JNum n"
| "stringify (JInfinity s) = JNull"
| "stringify (JStr s) = JStr s"
| "stringify (JArr vs) = JArr (map stringify vs)"
| "stringify (JObj ps) = JObj (map (map_prod id stringify) ps)"

definition opt_prop :: "string \<Rightarrow> json option \<Rightarrow> (string \<times> json) list" where
  "opt_prop k v = (case v of None \<Rightarrow> [] | Some j \<Rightarrow> [(k, stringify j)])"

definition customer_json :: "customer \<Rightarrow> json" where
  "customer_json c =
     JObj ([(''id'', JStr (id_c c))] @ opt_prop ''name'' (name c) @ opt_prop ''email'' (email c)
           @ [(''healthScore'', JNum (healthScore c))])"

section \<open>The handlers of the customer router\<close>

text \<open>\<^verbatim>\<open>router.get('/')\<close>: \<^verbatim>\<open>res.json(customers)\<close>, with the default status 200.\<close>

definition router_get_root :: "store \<Rightarrow> response \<times> store" where
  "router_get_root customers =
     (\<lparr>status = 200, payload = Json (JArr (map customer_json customers))\<rparr>, customers)"

text \<open>
  \<^verbatim>\<open>const { name, email } = req.body\<close>: destructuring \<^verbatim>\<open>undefined\<close> or \<^verbatim>\<open>null\<close>
  throws a TypeError; an object yields its properties; an array or a primitive has neither
  property, own or inherited.
\<close>

fun destructure_body :: "json option \<Rightarrow> error + (json option \<times> json option)" where
  "destructure_body None = Inl TypeError"
| "destructure_body (Some JNull) = Inl TypeError"
| "destructure_body (Some (JObj props)) = Inr (map_of props ''name'', map_of props ''email'')"
| "destructure_body (Some _) = Inr (None, None)"

text \<open>
  The object literal of \<^verbatim>\<open>router.post('/')\<close>; \<open>uuidv4\<close> and \<open>random\<close> are what the
  calls \<^verbatim>\<open>uuidv4()\<close> and \<^verbatim>\<open>Math.random()\<close> returned.
\<close>

definition newCustomer :: "string \<Rightarrow> json option \<Rightarrow> json option \<Rightarrow> rat \<Rightarrow> customer" where
  "newCustomer uuidv4 nm em random =
     \<lparr>id_c = uuidv4, name = nm, email = em, healthScore = fmul random 100\<rparr>"

definition router_post_root ::
  "string \<Rightarrow> rat \<Rightarrow> json option \<Rightarrow> store \<Rightarrow> error + (response \<times> store)" where
  "router_post_root uuidv4 random body customers =
     (case destructure_body body of
        Inl e \<Rightarrow> Inl e
      | Inr (nm, em) \<Rightarrow>
          let c = newCustomer uuidv4 nm em random
          in Inr (\<lparr>status = 201, payload = Json (customer_json c)\<rparr>, customers @ [c]))"

text \<open>\<^verbatim>\<open>router.get('/:id')\<close>: \<^verbatim>\<open>customers.find\<close> returns the first match or
  \<^verbatim>\<open>undefined\<close>; an object is truthy.\<close>

definition router_get_id :: "string \<Rightarrow> store \<Rightarrow> response \<times> store" where
  "router_get_id req_id customers =
     (case find (\<lambda>c. id_c c = req_id) customers of
        Some c \<Rightarrow> (\<lparr>status = 200, payload = Json (customer_json c)\<rparr>, customers)
      | None \<Rightarrow> (\<lparr>status = 404, payload = Text ''Customer not found''\<rparr>, customers))"

section \<open>The application\<close>

text \<open>
  \<^verbatim>\<open>app.use(express.json())\<close> parses a body in strict mode: only an object or an array
  is accepted. \<^verbatim>\<open>app.use('/api/customers', customerRoutes)\<close> dispatches to the three
  handlers; an exception thrown by a handler is answered by the framework with status 500
  and the process goes on with the store as it was. A POST request is paired with the
  values that \<^verbatim>\<open>uuidv4()\<close> and \<^verbatim>\<open>Math.random()\<close> return while it is handled.
\<close>

definition strict_json :: "json \<Rightarrow> bool" where
  "strict_json b = (case b of JObj _ \<Rightarrow> True | JArr _ \<Rightarrow> True | _ \<Rightarrow> False)"

datatype request =
    GET_root
  | POST_root string rat "json option"
  | GET_id string

fun app :: "request \<Rightarrow> store \<Rightarrow> response \<times> store" where
  "app GET_root customers = router_get_root customers"
| "app (POST_root uuidv4 random body) customers =
     (case router_post_root uuidv4 random body customers of
        Inl e \<Rightarrow> (\<lparr>status = 500, payload = ErrorPage e\<rparr>, customers)
      | Inr r \<Rightarrow> r)"
| "app (GET_id req_id) customers = router_get_id req_id customers"

fun run :: "request list \<Rightarrow> store \<Rightarrow> response list \<times> store" where
  "run [] customers = ([], customers)"
| "run (rq # rqs) customers =
     (let (rsp, customers') = app rq customers;
          (rsps, customers'') = run rqs customers'
      in (rsp # rsps, customers''))"

text \<open>
  The values the calls of \<^verbatim>\<open>uuidv4()\<close> returned during a run, in call order: the
  POST handler calls it once, after the destructuring of the body has succeeded.
\<close>

fun uuid_calls :: "request list \<Rightarrow> string list" where
  "uuid_calls [] = []"
| "uuid_calls (POST_root uuidv4 random body # rqs) =
     (case destructure_body body of
        Inl e \<Rightarrow> uuid_calls rqs
      | Inr ne \<Rightarrow> uuidv4 # uuid_calls rqs)"
| "uuid_calls (rq # rqs) = uuid_calls rqs"

text \<open>
  The values the calls of \<^verbatim>\<open>Math.random()\<close> returned during a run, in call order:
  the POST handler calls it once, after \<^verbatim>\<open>uuidv4()\<close>.
\<close>

fun random_calls :: "request list \<Rightarrow> rat list" where
  "random_calls [] = []"
| "random_calls (POST_root uuidv4 random body # rqs) =
     (case destructure_body body of
        Inl e \<Rightarrow> random_calls rqs
      | Inr ne \<Rightarrow> random # random_calls rqs)"
| "random_calls (rq # rqs) = random_calls rqs"

section \<open>Rounding to binary64\<close>

lemma bitlen_pos: "0 < n \<Longrightarrow> 1 \<le> bitlen n"
  by (simp add: bitlen_alt_def)

lemma binade_ge1:
  fixes x :: rat
  assumes "1 \<le> x"
  shows "2 powi (binade x) \<le> x \<and> x < 2 powi (binade x + 1)"
proof -
  let ?n = "\<lfloor>x\<rfloor>"
  have n: "0 < ?n" using assms by simp
  have k: "1 \<le> bitlen ?n" using n by (rule bitlen_pos)
  from bitlen_bounds [OF n]
  have lo: "2 ^ nat (bitlen ?n - 1) \<le> ?n" and hi: "?n < 2 ^ nat (bitlen ?n)" by auto
  have "(2::rat) powi (bitlen ?n - 1) = of_int (2 ^ nat (bitlen ?n - 1))"
    using k by (simp add: power_int_def)
  also have "\<dots> \<le> of_int ?n" using lo by (simp only: of_int_le_iff)
  also have "\<dots> \<le> x" by simp
  finally have A: "2 powi (bitlen ?n - 1) \<le> x" .
  have "?n + 1 \<le> 2 ^ nat (bitlen ?n)" using hi by simp
  then have "(of_int (?n + 1) :: rat) \<le> of_int (2 ^ nat (bitlen ?n))"
    by (simp only: of_int_le_iff)
  moreover have "x < of_int (?n + 1)" using floor_correct [of x] by simp
  ultimately have "x < of_int (2 ^ nat (bitlen ?n))" by (rule less_le_trans [rotated])
  moreover have "(2::rat) powi (bitlen ?n) = of_int (2 ^ nat (bitlen ?n))"
    using k by (simp add: power_int_def)
  ultimately have B: "x < 2 powi (bitlen ?n)" by simp
  show ?thesis using A B assms by (simp add: binade_def)
qed

lemma binade_lt1:
  fixes x :: rat
  assumes "0 < x" "x < 1"
  shows "2 powi (binade x) \<le> x \<and> x < 2 powi (binade x + 1)"
proof -
  let ?m = "\<lceil>1 / x\<rceil> - 1"
  let ?k = "bitlen ?m"
  have y: "1 < 1 / x" using assms by simp
  then have "1 < \<lceil>1 / x\<rceil>" by (simp add: less_ceiling_iff)
  then have m: "0 < ?m" by simp
  have k: "1 \<le> ?k" using m by (rule bitlen_pos)
  from bitlen_bounds [OF m]
  have lo: "2 ^ nat (?k - 1) \<le> ?m" and hi: "?m < 2 ^ nat ?k" by auto
  have m_lt: "of_int ?m < 1 / x"
    using ceiling_correct [of "1 / x"] by simp
  have "1 / x \<le> of_int (?m + 1)" by (simp add: le_of_int_ceiling)
  also have "\<dots> \<le> of_int (2 ^ nat ?k)" using hi by (simp only: of_int_le_iff)
  finally have "1 / x \<le> 2 ^ nat ?k" by simp
  then have "1 / 2 ^ nat ?k \<le> x" using assms(1)
    by (simp add: field_simps)
  moreover have "(2::rat) powi (- ?k) = 1 / 2 ^ nat ?k"
    using k by (simp add: power_int_def field_simps)
  ultimately have A: "2 powi (- ?k) \<le> x" by simp
  have "(of_int (2 ^ nat (?k - 1)) :: rat) \<le> of_int ?m" using lo by (simp only: of_int_le_iff)
  then have "(2::rat) ^ nat (?k - 1) < 1 / x" using m_lt by simp
  then have "x < 1 / 2 ^ nat (?k - 1)" using assms(1)
    by (simp add: field_simps)
  moreover have "(2::rat) powi (- ?k + 1) = 1 / 2 ^ nat (?k - 1)"
  proof (cases "?k = 1")
    case True then show ?thesis by simp
  next
    case False
    then have "- ?k + 1 < 0" using k by simp
    then show ?thesis by (simp add: power_int_def field_simps nat_diff_distrib)
  qed
  ultimately have B: "x < 2 powi (- ?k + 1)" by simp
  show ?thesis using A B assms by (simp add: binade_def)
qed

lemma binade_bounds:
  fixes x :: rat
  assumes "0 < x"
  shows "2 powi (binade x) \<le> x \<and> x < 2 powi (binade x + 1)"
  using binade_ge1 [of x] binade_lt1 [of x] assms by (cases "1 \<le> x") auto

lemma round_half_even_ge:
  "of_int n \<le> x \<Longrightarrow> n \<le> round_half_even x"
proof -
  assume "of_int n \<le> x"
  then have "n \<le> \<lfloor>x\<rfloor>" by (simp add: le_floor_iff)
  then show ?thesis by (simp add: round_half_even_def Let_def)
qed

lemma round_half_even_le:
  assumes "x \<le> of_int n"
  shows "round_half_even x \<le> n"
proof (cases "x = of_int n")
  case True
  then show ?thesis by (simp add: round_half_even_def)
next
  case False
  with assms have "x < of_int n" by simp
  then have "\<lfloor>x\<rfloor> < n" by (simp add: floor_less_iff)
  then show ?thesis by (simp add: round_half_even_def Let_def)
qed

lemma round_half_even_below_half:
  assumes "x < of_int n - 1 / 2"
  shows "round_half_even x \<le> n - 1"
proof -
  have "x < of_int n" using assms by simp
  then have f: "\<lfloor>x\<rfloor> \<le> n - 1" by (simp add: floor_less_iff)
  show ?thesis
  proof (cases "\<lfloor>x\<rfloor> = n - 1")
    case True
    then have "x - of_int \<lfloor>x\<rfloor> < 1 / 2" using assms by simp
    then show ?thesis using True by (simp add: round_half_even_def Let_def)
  next
    case False
    with f have "\<lfloor>x\<rfloor> + 1 \<le> n - 1" by simp
    then show ?thesis by (simp add: round_half_even_def Let_def)
  qed
qed

lemma ulp_pos: "0 < ulp x"
  by (simp add: ulp_def)

lemma round_double_nonneg:
  assumes "0 \<le> x"
  shows "0 \<le> round_double x"
proof (cases "x = 0")
  case True then show ?thesis by (simp add: round_double_def)
next
  case False
  with assms have x: "0 < x" by simp
  have "0 \<le> x / ulp x" using x ulp_pos [of x] by simp
  then have "0 \<le> round_half_even (x / ulp x)"
    using round_half_even_ge [of 0 "x / ulp x"] by simp
  then show ?thesis using x ulp_pos [of x] by (simp add: round_double_def)
qed

lemma binade_less:
  fixes x :: rat
  assumes "0 < x" "x < 2 powi n"
  shows "binade x < n"
proof (rule ccontr)
  assume "\<not> binade x < n"
  then have "n \<le> binade x" by simp
  then have "(2::rat) powi n \<le> 2 powi binade x" by (simp add: power_int_increasing)
  with binade_bounds [OF assms(1)] assms(2) show False by simp
qed

lemma binade_ge:
  fixes x :: rat
  assumes "2 powi n \<le> x"
  shows "n \<le> binade x"
proof (rule ccontr)
  assume "\<not> n \<le> binade x"
  then have "binade x + 1 \<le> n" by simp
  then have "(2::rat) powi (binade x + 1) \<le> 2 powi n" by (simp add: power_int_increasing)
  moreover have "0 < x" using assms by (rule less_le_trans [rotated]) simp
  ultimately show False using binade_bounds [of x] assms by simp
qed

lemma round_double_le_binade:
  assumes "0 < x" "x < 2 powi n" "- 1021 \<le> n"
  shows "round_double x \<le> 2 powi n"
proof -
  let ?e = "max (binade x) (- 1022)"
  have e: "?e + 1 \<le> n" using binade_less [OF assms(1,2)] assms(3) by simp
  have up: "x < 2 powi (?e + 1)"
  proof -
    have "x < 2 powi (binade x + 1)" using binade_bounds [OF assms(1)] by simp
    also have "\<dots> \<le> 2 powi (?e + 1)" by (simp add: power_int_increasing)
    finally show ?thesis .
  qed
  have u: "ulp x = 2 powi (?e - 52)" by (simp add: ulp_def)
  have split: "(2::rat) powi (?e + 1) = 2 ^ 53 * 2 powi (?e - 52)"
  proof -
    have "?e + 1 = 53 + (?e - 52)" by arith
    then have "(2::rat) powi (?e + 1) = 2 powi (53 + (?e - 52))" by (rule arg_cong)
    also have "\<dots> = 2 powi 53 * 2 powi (?e - 52)" by (rule power_int_add) simp
    finally show ?thesis by simp
  qed
  have "x / ulp x \<le> of_int (2 ^ 53)"
    using up ulp_pos [of x] unfolding split u by (simp add: field_simps)
  then have "round_half_even (x / ulp x) \<le> 2 ^ 53" by (rule round_half_even_le)
  then have "(of_int (round_half_even (x / ulp x)) :: rat) \<le> of_int (2 ^ 53)"
    by (simp only: of_int_le_iff)
  then have "of_int (round_half_even (x / ulp x)) * ulp x \<le> 2 ^ 53 * ulp x"
    using ulp_pos [of x] by simp
  also have "\<dots> = 2 powi (?e + 1)" unfolding split u ..
  also have "\<dots> \<le> 2 powi n" using e by (simp add: power_int_increasing)
  finally show ?thesis using assms(1) by (simp add: round_double_def)
qed

lemma binade_eqI:
  fixes x :: rat
  assumes "2 powi n \<le> x" "x < 2 powi (n + 1)"
  shows "binade x = n"
proof -
  have "0 < x" using assms(1) by (rule less_le_trans [rotated]) simp
  then have "binade x < n + 1" using assms(2) by (rule binade_less)
  moreover have "n \<le> binade x" using assms(1) by (rule binade_ge)
  ultimately show ?thesis by simp
qed

lemma round_double_below_100:
  assumes "0 \<le> x" "x \<le> 100 - 100 / 2 ^ 53"
  shows "round_double x < 100"
proof (cases "x < 64")
  case True
  show ?thesis
  proof (cases "x = 0")
    case True then show ?thesis by (simp add: round_double_def)
  next
    case False
    with assms have "0 < x" by simp
    moreover have "x < 2 powi 6" using True by simp
    ultimately have "round_double x \<le> 2 powi 6" by (rule round_double_le_binade) simp
    then show ?thesis by simp
  qed
next
  case False
  then have lo: "2 powi 6 \<le> x" by simp
  have "x < 128" using assms(2) by simp
  then have hi: "x < 2 powi (6 + 1)" by simp
  have b: "binade x = 6" using lo hi by (rule binade_eqI)
  have x: "0 < x" using False by simp
  have u: "ulp x = 1 / 2 ^ 46" by (simp add: ulp_def b power_int_minus_divide)
  have "x * 2 ^ 46 \<le> (100 - 100 / 2 ^ 53) * 2 ^ 46" using assms(2) by simp
  also have "\<dots> < of_int (100 * 2 ^ 46) - 1 / 2" by simp
  finally have "x / ulp x < of_int (100 * 2 ^ 46) - 1 / 2" by (simp add: u)
  then have "round_half_even (x / ulp x) \<le> 100 * 2 ^ 46 - 1"
    by (rule round_half_even_below_half)
  then have "(of_int (round_half_even (x / ulp x)) :: rat) \<le> of_int (100 * 2 ^ 46 - 1)"
    by (simp only: of_int_le_iff)
  then have "of_int (round_half_even (x / ulp x)) * ulp x \<le> of_int (100 * 2 ^ 46 - 1) * ulp x"
    using ulp_pos [of x] by simp
  also have "\<dots> < 100" by (simp add: u)
  finally show ?thesis using x by (simp add: round_double_def)
qed

lemma double_below_1:
  assumes "is_double r" "0 \<le> r" "r < 1"
  shows "r \<le> 1 - 1 / 2 ^ 53"
proof (cases "r < 1 / 2")
  case True
  then show ?thesis by simp
next
  case False
  then have lo: "2 powi (- 1) \<le> r" by (simp add: power_int_minus_divide)
  have hi: "r < 2 powi (- 1 + 1)" using assms(3) by simp
  have b: "binade r = - 1" using lo hi by (rule binade_eqI)
  have r: "0 < r" using False by simp
  have u: "ulp r = 1 / 2 ^ 53" by (simp add: ulp_def b power_int_minus_divide)
  define k where "k = round_half_even (r / ulp r)"
  have eq: "r = of_int k / 2 ^ 53"
    using assms(1) r unfolding is_double_def round_double_def k_def by (simp add: u)
  then have "(of_int k :: rat) < of_int (2 ^ 53)" using assms(3) by simp
  then have "k < 2 ^ 53" by (simp only: of_int_less_iff)
  then have "k \<le> 2 ^ 53 - 1" by simp
  then have "(of_int k :: rat) \<le> of_int (2 ^ 53 - 1)" by (simp only: of_int_le_iff)
  then have "of_int k / 2 ^ 53 \<le> (of_int (2 ^ 53 - 1) :: rat) / 2 ^ 53"
    by (simp add: divide_right_mono)
  then show ?thesis unfolding eq by simp
qed

lemma round_half_even_error: "\<bar>of_int (round_half_even x) - x\<bar> \<le> 1 / 2"
proof -
  have "of_int \<lfloor>x\<rfloor> \<le> x" and "x < of_int \<lfloor>x\<rfloor> + 1"
    using floor_correct [of x] by simp_all
  then show ?thesis by (simp add: round_half_even_def Let_def abs_le_iff)
qed

lemma round_double_error:
  assumes "0 \<le> x" and "x < 2 powi 7"
  shows "\<bar>round_double x - x\<bar> \<le> 1 / 2 ^ 47"
proof (cases "x = 0")
  case True
  then show ?thesis by (simp add: round_double_def)
next
  case False
  with assms have x: "0 < x" by simp
  let ?k = "round_half_even (x / ulp x)"
  have "binade x < 7" using x assms(2) by (rule binade_less)
  then have "max (binade x) (- 1022) - 52 \<le> - 46" by simp
  then have "(2::rat) powi (max (binade x) (- 1022) - 52) \<le> 2 powi (- 46)"
    by (rule power_int_increasing) simp
  then have u: "ulp x \<le> 1 / 2 ^ 46"
    unfolding ulp_def by (simp add: power_int_minus_divide)
  have "of_int ?k * ulp x - x = (of_int ?k - x / ulp x) * ulp x"
    using ulp_pos [of x] by (simp add: left_diff_distrib)
  then have "\<bar>of_int ?k * ulp x - x\<bar> = \<bar>of_int ?k - x / ulp x\<bar> * \<bar>ulp x\<bar>"
    by (simp only: abs_mult)
  also have "\<dots> = \<bar>of_int ?k - x / ulp x\<bar> * ulp x"
    using ulp_pos [of x] by simp
  also have "\<dots> \<le> 1 / 2 * ulp x"
    using round_half_even_error [of "x / ulp x"] ulp_pos [of x]
    by (simp add: mult_right_mono)
  also have "\<dots> \<le> 1 / 2 * (1 / 2 ^ 46)" using u by simp
  finally show ?thesis using x by (simp add: round_double_def)
qed

lemma fmul_random_100:
  assumes "is_double r" "0 \<le> r" "r < 1"
  shows "0 \<le> fmul r 100 \<and> fmul r 100 < 100"
proof -
  have "r \<le> 1 - 1 / 2 ^ 53" using assms by (rule double_below_1)
  then have "r * 100 \<le> 100 - 100 / 2 ^ 53" by simp
  moreover have "0 \<le> r * 100" using assms(2) by simp
  ultimately show ?thesis
    using round_double_below_100 [of "r * 100"] round_double_nonneg [of "r * 100"]
    by (simp add: fmul_def)
qed

lemma fmul_random_error:
  assumes "0 \<le> r" "r < 1"
  shows "\<bar>fmul r 100 - r * 100\<bar> \<le> 1 / 2 ^ 47"
proof -
  have "0 \<le> r * 100" and "r * 100 < 2 powi 7" using assms by simp_all
  then show ?thesis unfolding fmul_def by (rule round_double_error)
qed

section \<open>Handlers and runs\<close>

lemma destructure_strict:
  "strict_json b \<Longrightarrow> \<exists>nm em. destructure_body (Some b) = Inr (nm, em)"
  by (cases b) (simp_all add: strict_json_def)

lemma post_result:
  "destructure_body body = Inr (nm, em) \<Longrightarrow>
   router_post_root u r body customers =
     Inr (\<lparr>status = 201, payload = Json (customer_json (newCustomer u nm em r))\<rparr>,
          customers @ [newCustomer u nm em r])"
  by (simp add: router_post_root_def Let_def)

lemma post_throws:
  "destructure_body body = Inl e \<Longrightarrow> router_post_root u r body customers = Inl e"
  by (simp add: router_post_root_def)

lemma get_id_store: "snd (router_get_id rid customers) = customers"
  by (simp add: router_get_id_def split: option.split)

lemma get_id_status: "status (fst (router_get_id rid customers)) \<noteq> 201"
  by (simp add: router_get_id_def split: option.split)

lemma app_cases:
  obtains (get_root) "rq = GET_root"
  | (get_id) rid where "rq = GET_id rid"
  | (post_ok) u r body nm em where "rq = POST_root u r body" "destructure_body body = Inr (nm, em)"
  | (post_err) u r body e where "rq = POST_root u r body" "destructure_body body = Inl e"
proof (cases rq)
  case GET_root then show ?thesis by (rule get_root)
next
  case (GET_id rid) then show ?thesis by (rule get_id)
next
  case (POST_root u r body)
  show ?thesis
  proof (cases "destructure_body body")
    case (Inl e) with POST_root show ?thesis by (rule post_err)
  next
    case (Inr ne) 
    obtain nm em where "ne = (nm, em)" by (cases ne)
    with Inr POST_root show ?thesis by (auto intro: post_ok)
  qed
qed

lemma run_snd_Cons: "snd (run (rq # rqs) st) = snd (run rqs (snd (app rq st)))"
  by (simp add: split_beta Let_def)

lemma run_fst_Cons: "fst (run (rq # rqs) st) = fst (app rq st) # fst (run rqs (snd (app rq st)))"
  by (simp add: split_beta Let_def)

lemma app_appends: "\<exists>new. snd (app rq st) = st @ new"
  by (cases rq rule: app_cases)
     (simp_all add: router_get_root_def get_id_store post_result post_throws)

lemma run_appends: "\<exists>new. snd (run rqs st) = st @ new"
proof (induction rqs arbitrary: st)
  case Nil
  show ?case by simp
next
  case (Cons rq rqs)
  obtain n1 where 1: "snd (app rq st) = st @ n1" using app_appends by blast
  obtain n2 where 2: "snd (run rqs (st @ n1)) = (st @ n1) @ n2" using Cons.IH by blast
  show ?case unfolding run_snd_Cons 1 2 by simp
qed

lemma run_ids: "map id_c (snd (run rqs st)) = map id_c st @ uuid_calls rqs"
proof (induction rqs arbitrary: st)
  case Nil
  show ?case by simp
next
  case (Cons rq rqs)
  show ?case
    by (cases rq rule: app_cases)
       (simp_all add: run_snd_Cons Cons.IH router_get_root_def get_id_store post_result post_throws
          newCustomer_def del: run.simps)
qed

lemma run_payloads:
  "map (\<lambda>c. Json (customer_json c)) (snd (run rqs st)) =
     map (\<lambda>c. Json (customer_json c)) st @ map payload (filter (\<lambda>r. status r = 201) (fst (run rqs st)))"
proof (induction rqs arbitrary: st)
  case Nil
  show ?case by simp
next
  case (Cons rq rqs)
  show ?case
    by (cases rq rule: app_cases)
       (simp_all add: run_snd_Cons run_fst_Cons Cons.IH router_get_root_def get_id_store
          get_id_status post_result post_throws del: run.simps)
qed

lemma run_scores:
  "map healthScore (snd (run rqs st)) = map healthScore st @ map (\<lambda>r. fmul r 100) (random_calls rqs)"
proof (induction rqs arbitrary: st)
  case Nil
  show ?case by simp
next
  case (Cons rq rqs)
  show ?case
    by (cases rq rule: app_cases)
       (simp_all add: run_snd_Cons Cons.IH router_get_root_def get_id_store post_result post_throws
          newCustomer_def del: run.simps)
qed

section \<open>Evaluation at sample draws\<close>

lemmas eval_defs =
  customers_init_def router_post_root_def router_get_root_def router_get_id_def
  newCustomer_def customer_json_def opt_prop_def strict_json_def

lemma Math_random_quarter: "Math_random (1 / 4)"
  by code_simp

lemma fmul_quarter: "fmul (1 / 4) 100 = 25"
  by code_simp

lemma fmul_three_quarters: "fmul (3 / 4) 100 = 75"
  by code_simp

lemma Math_random_max: "Math_random (1 - 1 / 2 ^ 53)"
  by code_simp

lemma fmul_max: "fmul (1 - 1 / 2 ^ 53) 100 = 100 - 1 / 2 ^ 46"
  by code_simp

section \<open>The create endpoint\<close>

text \<open>
  C1, as stated, fails: the id of the new record is the value of \<^verbatim>\<open>uuidv4()\<close>,
  stored without a lookup. When the store already holds a record with that value (left
  by an earlier POST for which \<^verbatim>\<open>uuidv4()\<close> returned it), the new record is answered
  with 201 and its id is not unique.
\<close>

theorem post_id_counterexample:
  "router_post_root ''9b2d3f6e-5c1a-4e8b-a7d0-3f4c2b1a0e9d'' (3 / 4)
     (Some (JObj [(''name'', JStr ''Grace''), (''email'', JStr ''grace@example.com'')]))
     [\<lparr>id_c = ''9b2d3f6e-5c1a-4e8b-a7d0-3f4c2b1a0e9d'', name = Some (JStr ''Alan''),
       email = Some (JStr ''alan@example.com''), healthScore = 25\<rparr>]
   = Inr (\<lparr>status = 201,
           payload = Json (JObj [(''id'', JStr ''9b2d3f6e-5c1a-4e8b-a7d0-3f4c2b1a0e9d''),
                                 (''name'', JStr ''Grace''), (''email'', JStr ''grace@example.com''),
                                 (''healthScore'', JNum 75)])\<rparr>,
          [\<lparr>id_c = ''9b2d3f6e-5c1a-4e8b-a7d0-3f4c2b1a0e9d'', name = Some (JStr ''Alan''),
            email = Some (JStr ''alan@example.com''), healthScore = 25\<rparr>,
           \<lparr>id_c = ''9b2d3f6e-5c1a-4e8b-a7d0-3f4c2b1a0e9d'', name = Some (JStr ''Grace''),
            email = Some (JStr ''grace@example.com''), healthScore = 75\<rparr>])"
  by (simp add: eval_defs fmul_three_quarters)

text \<open>
  C1, amended. For a body that is an object with the properties \<^verbatim>\<open>name\<close> and
  \<^verbatim>\<open>email\<close>, the POST handler builds a record with these two values, the id that
  \<^verbatim>\<open>uuidv4()\<close> returned for this request and the health score
  \<^verbatim>\<open>Math.random() * 100\<close>; it appends the record to the store and answers 201 with
  the record as \<^verbatim>\<open>JSON.stringify\<close> writes it. The ids of the new store are pairwise
  distinct exactly when those of the old store are and the value of \<^verbatim>\<open>uuidv4()\<close> is
  not among them. The health score is the binary64 nearest to 100 times the draw: it
  differs from that product by at most \<open>1 / 2 ^ 47\<close> and lies in [0, 100).
\<close>

theorem post_creates_customer:
  assumes "map_of props ''name'' = Some nm" and "map_of props ''email'' = Some em"
    and "Math_random r"
  shows "router_post_root u r (Some (JObj props)) customers =
           Inr (\<lparr>status = 201,
                 payload = Json (JObj [(''id'', JStr u), (''name'', stringify nm),
                                       (''email'', stringify em),
                                       (''healthScore'', JNum (fmul r 100))])\<rparr>,
                customers @ [\<lparr>id_c = u, name = Some nm, email = Some em,
                               healthScore = fmul r 100\<rparr>])
         \<and> distinct (map id_c (customers @ [\<lparr>id_c = u, name = Some nm, email = Some em,
                                                 healthScore = fmul r 100\<rparr>]))
             = (distinct (map id_c customers) \<and> u \<notin> set (map id_c customers))
         \<and> 0 \<le> fmul r 100 \<and> fmul r 100 < 100
         \<and> \<bar>fmul r 100 - r * 100\<bar> \<le> 1 / 2 ^ 47"
proof -
  have "destructure_body (Some (JObj props)) = Inr (Some nm, Some em)"
    using assms(1,2) by simp
  then have "router_post_root u r (Some (JObj props)) customers =
      Inr (\<lparr>status = 201, payload = Json (customer_json (newCustomer u (Some nm) (Some em) r))\<rparr>,
           customers @ [newCustomer u (Some nm) (Some em) r])"
    by (rule post_result)
  then have post: "router_post_root u r (Some (JObj props)) customers =
           Inr (\<lparr>status = 201,
                 payload = Json (JObj [(''id'', JStr u), (''name'', stringify nm),
                                       (''email'', stringify em),
                                       (''healthScore'', JNum (fmul r 100))])\<rparr>,
                customers @ [\<lparr>id_c = u, name = Some nm, email = Some em,
                               healthScore = fmul r 100\<rparr>])"
    by (simp add: newCustomer_def customer_json_def opt_prop_def)
  have r: "is_double r" "0 \<le> r" "r < 1" using assms(3) by (simp_all add: Math_random_def)
  have range: "0 \<le> fmul r 100 \<and> fmul r 100 < 100" using r by (rule fmul_random_100)
  have err: "\<bar>fmul r 100 - r * 100\<bar> \<le> 1 / 2 ^ 47" using r(2,3) by (rule fmul_random_error)
  have ids: "distinct (map id_c (customers @ [\<lparr>id_c = u, name = Some nm, email = Some em,
                                                 healthScore = fmul r 100\<rparr>]))
             = (distinct (map id_c customers) \<and> u \<notin> set (map id_c customers))"
    by auto
  show ?thesis using post ids range err by blast
qed

theorem post_creates_customer_witness:
  "Math_random (1 / 4) \<and> Math_random (1 - 1 / 2 ^ 53)
   \<and> router_post_root ''110ec58a-a0f2-4ac4-8393-c866d813b8d1'' (1 / 4)
        (Some (JObj [(''name'', JStr ''Test Customer''), (''email'', JStr ''test@example.com'')])) []
      = Inr (\<lparr>status = 201,
              payload = Json (JObj [(''id'', JStr ''110ec58a-a0f2-4ac4-8393-c866d813b8d1''),
                                    (''name'', JStr ''Test Customer''),
                                    (''email'', JStr ''test@example.com''),
                                    (''healthScore'', JNum 25)])\<rparr>,
             [\<lparr>id_c = ''110ec58a-a0f2-4ac4-8393-c866d813b8d1'', name = Some (JStr ''Test Customer''),
               email = Some (JStr ''test@example.com''), healthScore = 25\<rparr>])
   \<and> router_post_root ''7c9e6679-7425-40de-944b-e07fc1f90ae7'' (1 - 1 / 2 ^ 53)
        (Some (JObj [(''email'', JStr ''big@example.com''), (''name'', JArr [JInfinity True])]))
        [\<lparr>id_c = ''110ec58a-a0f2-4ac4-8393-c866d813b8d1'', name = Some (JStr ''Test Customer''),
          email = Some (JStr ''test@example.com''), healthScore = 25\<rparr>]
      = Inr (\<lparr>status = 201,
              payload = Json (JObj [(''id'', JStr ''7c9e6679-7425-40de-944b-e07fc1f90ae7''),
                                    (''name'', JArr [JNull]),
                                    (''email'', JStr ''big@example.com''),
                                    (''healthScore'', JNum (100 - 1 / 2 ^ 46))])\<rparr>,
             [\<lparr>id_c = ''110ec58a-a0f2-4ac4-8393-c866d813b8d1'', name = Some (JStr ''Test Customer''),
               email = Some (JStr ''test@example.com''), healthScore = 25\<rparr>,
              \<lparr>id_c = ''7c9e6679-7425-40de-944b-e07fc1f90ae7'', name = Some (JArr [JInfinity True]),
               email = Some (JStr ''big@example.com''), healthScore = 100 - 1 / 2 ^ 46\<rparr>])
   \<and> distinct [''110ec58a-a0f2-4ac4-8393-c866d813b8d1'', ''7c9e6679-7425-40de-944b-e07fc1f90ae7'']
   \<and> \<bar>100 - 1 / 2 ^ 46 - (1 - 1 / 2 ^ 53) * 100\<bar> \<le> (1::rat) / 2 ^ 47"
  using fmul_quarter fmul_max Math_random_quarter Math_random_max
    post_creates_customer
    [of "[(''name'', JStr ''Test Customer''), (''email'', JStr ''test@example.com'')]"
        "JStr ''Test Customer''" "JStr ''test@example.com''" "1 / 4"
        "''110ec58a-a0f2-4ac4-8393-c866d813b8d1''" "[]"]
    post_creates_customer
    [of "[(''email'', JStr ''big@example.com''), (''name'', JArr [JInfinity True])]"
        "JArr [JInfinity True]" "JStr ''big@example.com''" "1 - 1 / 2 ^ 53"
        "''7c9e6679-7425-40de-944b-e07fc1f90ae7''"
        "[\<lparr>id_c = ''110ec58a-a0f2-4ac4-8393-c866d813b8d1'', name = Some (JStr ''Test Customer''),
          email = Some (JStr ''test@example.com''), healthScore = 25\<rparr>]"]
  by simp

text \<open>
  C8. Creation has no error branch for a parsed body: whatever object or array the JSON
  parser delivered, with the properties missing or of any type, and whatever the store
  holds, the handler answers 201 and the store is the old one with one record appended.
\<close>

theorem create_always_succeeds:
  assumes "strict_json b"
  shows "\<exists>c. router_post_root u r (Some b) customers =
               Inr (\<lparr>status = 201, payload = Json (customer_json c)\<rparr>, customers @ [c])
            \<and> app (POST_root u r (Some b)) customers =
               (\<lparr>status = 201, payload = Json (customer_json c)\<rparr>, customers @ [c])
            \<and> length (snd (app (POST_root u r (Some b)) customers)) = length customers + 1"
proof -
  obtain nm em where "destructure_body (Some b) = Inr (nm, em)"
    using destructure_strict [OF assms] by blast
  then have "router_post_root u r (Some b) customers =
      Inr (\<lparr>status = 201, payload = Json (customer_json (newCustomer u nm em r))\<rparr>,
           customers @ [newCustomer u nm em r])"
    by (rule post_result)
  then show ?thesis by simp
qed

theorem create_always_succeeds_witness:
  "strict_json (JObj [(''name'', JNum 42)]) \<and> strict_json (JArr [])
   \<and> app (POST_root ''110ec58a-a0f2-4ac4-8393-c866d813b8d1'' (1 / 4)
          (Some (JObj [(''name'', JNum 42)]))) []
     = (\<lparr>status = 201,
         payload = Json (JObj [(''id'', JStr ''110ec58a-a0f2-4ac4-8393-c866d813b8d1''),
                               (''name'', JNum 42), (''healthScore'', JNum 25)])\<rparr>,
        [\<lparr>id_c = ''110ec58a-a0f2-4ac4-8393-c866d813b8d1'', name = Some (JNum 42),
          email = None, healthScore = 25\<rparr>])
   \<and> app (POST_root ''7c9e6679-7425-40de-944b-e07fc1f90ae7'' (1 / 4) (Some (JArr [])))
        [\<lparr>id_c = ''110ec58a-a0f2-4ac4-8393-c866d813b8d1'', name = Some (JNum 42),
          email = None, healthScore = 25\<rparr>]
     = (\<lparr>status = 201,
         payload = Json (JObj [(''id'', JStr ''7c9e6679-7425-40de-944b-e07fc1f90ae7''),
                               (''healthScore'', JNum 25)])\<rparr>,
        [\<lparr>id_c = ''110ec58a-a0f2-4ac4-8393-c866d813b8d1'', name = Some (JNum 42),
          email = None, healthScore = 25\<rparr>,
         \<lparr>id_c = ''7c9e6679-7425-40de-944b-e07fc1f90ae7'', name = None,
          email = None, healthScore = 25\<rparr>])"
  using create_always_succeeds
    [of "JObj [(''name'', JNum 42)]" "''110ec58a-a0f2-4ac4-8393-c866d813b8d1''" "1 / 4" "[]"]
    create_always_succeeds
    [of "JArr []" "''7c9e6679-7425-40de-944b-e07fc1f90ae7''" "1 / 4"
        "[\<lparr>id_c = ''110ec58a-a0f2-4ac4-8393-c866d813b8d1'', name = Some (JNum 42),
          email = None, healthScore = 25\<rparr>]"]
  by (simp add: eval_defs fmul_quarter)

text \<open>
  C9. Only \<^verbatim>\<open>name\<close> and \<^verbatim>\<open>email\<close> are read from the body: two objects that agree
  on these two properties give, for the same uuid and the same draw, the same record, the
  same response and the same store. An \<^verbatim>\<open>id\<close> or \<^verbatim>\<open>healthScore\<close> sent by the
  client is ignored.
\<close>

theorem extra_fields_ignored:
  assumes "map_of p1 ''name'' = map_of p2 ''name''"
    and "map_of p1 ''email'' = map_of p2 ''email''"
  shows "router_post_root u r (Some (JObj p1)) customers =
           router_post_root u r (Some (JObj p2)) customers
         \<and> app (POST_root u r (Some (JObj p1))) customers =
           app (POST_root u r (Some (JObj p2))) customers"
  using assms by (simp add: router_post_root_def)

theorem extra_fields_ignored_witness:
  "map_of [(''id'', JStr ''admin''), (''name'', JStr ''Ada''), (''healthScore'', JNum 1000),
           (''email'', JStr ''ada@example.com'')] ''name''
     = map_of [(''name'', JStr ''Ada''), (''email'', JStr ''ada@example.com'')] ''name''
   \<and> map_of [(''id'', JStr ''admin''), (''name'', JStr ''Ada''), (''healthScore'', JNum 1000),
           (''email'', JStr ''ada@example.com'')] ''email''
     = map_of [(''name'', JStr ''Ada''), (''email'', JStr ''ada@example.com'')] ''email''
   \<and> router_post_root ''110ec58a-a0f2-4ac4-8393-c866d813b8d1'' (1 / 4)
        (Some (JObj [(''id'', JStr ''admin''), (''name'', JStr ''Ada''),
                     (''healthScore'', JNum 1000), (''email'', JStr ''ada@example.com'')])) []
     = router_post_root ''110ec58a-a0f2-4ac4-8393-c866d813b8d1'' (1 / 4)
        (Some (JObj [(''name'', JStr ''Ada''), (''email'', JStr ''ada@example.com'')])) []
   \<and> router_post_root ''110ec58a-a0f2-4ac4-8393-c866d813b8d1'' (1 / 4)
        (Some (JObj [(''id'', JStr ''admin''), (''name'', JStr ''Ada''),
                     (''healthScore'', JNum 1000), (''email'', JStr ''ada@example.com'')])) []
     = Inr (\<lparr>status = 201,
             payload = Json (JObj [(''id'', JStr ''110ec58a-a0f2-4ac4-8393-c866d813b8d1''),
                                   (''name'', JStr ''Ada''), (''email'', JStr ''ada@example.com''),
                                   (''healthScore'', JNum 25)])\<rparr>,
            [\<lparr>id_c = ''110ec58a-a0f2-4ac4-8393-c866d813b8d1'', name = Some (JStr ''Ada''),
              email = Some (JStr ''ada@example.com''), healthScore = 25\<rparr>])"
  using extra_fields_ignored
    [of "[(''id'', JStr ''admin''), (''name'', JStr ''Ada''), (''healthScore'', JNum 1000),
          (''email'', JStr ''ada@example.com'')]"
        "[(''name'', JStr ''Ada''), (''email'', JStr ''ada@example.com'')]"
        "''110ec58a-a0f2-4ac4-8393-c866d813b8d1''" "1 / 4" "[]"]
  by (simp add: eval_defs fmul_quarter)

text \<open>
  C5. Every record in the store after a run from the empty store has a health score in
  [0, 100), when each call of \<^verbatim>\<open>Math.random()\<close> returned a Number in [0, 1). The
  product is rounded to binary64; the largest draw, \<open>1 - 1 / 2 ^ 53\<close>, gives
  \<open>100 - 1 / 2 ^ 46\<close>.
\<close>

theorem healthScore_range:
  assumes "\<forall>r \<in> set (random_calls rqs). Math_random r"
  shows "\<forall>c \<in> set (snd (run rqs customers_init)). 0 \<le> healthScore c \<and> healthScore c < 100"
proof
  fix c
  assume "c \<in> set (snd (run rqs customers_init))"
  then have "healthScore c \<in> set (map healthScore (snd (run rqs customers_init)))" by simp
  then have "healthScore c \<in> (\<lambda>r. fmul r 100) ` set (random_calls rqs)"
    by (simp add: run_scores customers_init_def)
  then obtain r where r: "r \<in> set (random_calls rqs)" and h: "healthScore c = fmul r 100"
    by blast
  from r assms have "Math_random r" by blast
  then have "0 \<le> fmul r 100 \<and> fmul r 100 < 100"
    unfolding Math_random_def by (intro fmul_random_100) simp_all
  then show "0 \<le> healthScore c \<and> healthScore c < 100" by (simp add: h)
qed

theorem healthScore_range_witness:
  "Math_random (1 / 4) \<and> Math_random (1 - 1 / 2 ^ 53)
   \<and> map healthScore (snd (run
        [POST_root ''110ec58a-a0f2-4ac4-8393-c866d813b8d1'' (1 / 4)
           (Some (JObj [(''name'', JStr ''Ada''), (''email'', JStr ''ada@example.com'')])),
         POST_root ''7c9e6679-7425-40de-944b-e07fc1f90ae7'' (1 - 1 / 2 ^ 53)
           (Some (JObj [(''name'', JStr ''Bob''), (''email'', JStr ''bob@example.com'')]))]
        customers_init))
     = [25, 100 - 1 / 2 ^ 46]
   \<and> list_all (\<lambda>c. 0 \<le> healthScore c \<and> healthScore c < 100) (snd (run
        [POST_root ''110ec58a-a0f2-4ac4-8393-c866d813b8d1'' (1 / 4)
           (Some (JObj [(''name'', JStr ''Ada''), (''email'', JStr ''ada@example.com'')])),
         POST_root ''7c9e6679-7425-40de-944b-e07fc1f90ae7'' (1 - 1 / 2 ^ 53)
           (Some (JObj [(''name'', JStr ''Bob''), (''email'', JStr ''bob@example.com'')]))]
        customers_init))"
proof -
  let ?rqs = "[POST_root ''110ec58a-a0f2-4ac4-8393-c866d813b8d1'' (1 / 4)
           (Some (JObj [(''name'', JStr ''Ada''), (''email'', JStr ''ada@example.com'')])),
         POST_root ''7c9e6679-7425-40de-944b-e07fc1f90ae7'' (1 - 1 / 2 ^ 53)
           (Some (JObj [(''name'', JStr ''Bob''), (''email'', JStr ''bob@example.com'')]))]"
  have h: "\<forall>r \<in> set (random_calls ?rqs). Math_random r"
    using Math_random_quarter Math_random_max by simp
  have s: "map healthScore (snd (run ?rqs customers_init)) = [25, 100 - 1 / 2 ^ 46]"
    unfolding run_scores using fmul_quarter fmul_max by (simp add: customers_init_def)
  from healthScore_range [OF h]
  have "list_all (\<lambda>c. 0 \<le> healthScore c \<and> healthScore c < 100) (snd (run ?rqs customers_init))"
    unfolding list_all_iff .
  with s Math_random_quarter Math_random_max show ?thesis by blast
qed

section \<open>The read endpoints\<close>

text \<open>
  C2. For every store the list handler answers 200 with the stored records in store
  order and leaves the store as it is. After any run from the empty store the listing
  holds exactly the records that the 201 responses of the run returned, in the order of
  those responses.
\<close>

theorem list_customers:
  "router_get_root customers =
     (\<lparr>status = 200, payload = Json (JArr (map customer_json customers))\<rparr>, customers)
   \<and> (\<exists>js. app GET_root (snd (run rqs customers_init)) =
               (\<lparr>status = 200, payload = Json (JArr js)\<rparr>, snd (run rqs customers_init))
          \<and> map Json js = map payload (filter (\<lambda>r. status r = 201) (fst (run rqs customers_init)))
          \<and> length js = length (filter (\<lambda>r. status r = 201) (fst (run rqs customers_init))))"
proof -
  let ?st = "snd (run rqs customers_init)"
  let ?created = "filter (\<lambda>r. status r = 201) (fst (run rqs customers_init))"
  have eq: "map Json (map customer_json ?st) = map payload ?created"
    using run_payloads [of rqs customers_init] by (simp add: customers_init_def comp_def)
  then have "length (map Json (map customer_json ?st)) = length (map payload ?created)"
    by (rule arg_cong)
  then have len: "length (map customer_json ?st) = length ?created" by simp
  have get: "app GET_root ?st = (\<lparr>status = 200, payload = Json (JArr (map customer_json ?st))\<rparr>, ?st)"
    by (simp add: router_get_root_def)
  show ?thesis
    using eq len get by (auto simp: router_get_root_def)
qed

theorem list_customers_witness:
  "app GET_root
     (snd (run [POST_root ''110ec58a-a0f2-4ac4-8393-c866d813b8d1'' (1 / 4)
                  (Some (JObj [(''name'', JStr ''Ada''), (''email'', JStr ''ada@example.com'')])),
                GET_id ''7c9e6679-7425-40de-944b-e07fc1f90ae7'',
                POST_root ''7c9e6679-7425-40de-944b-e07fc1f90ae7'' (3 / 4)
                  (Some (JObj [(''name'', JStr ''Bob''), (''email'', JStr ''bob@example.com'')]))]
            customers_init))
   = (\<lparr>status = 200,
       payload = Json (JArr
         [JObj [(''id'', JStr ''110ec58a-a0f2-4ac4-8393-c866d813b8d1''), (''name'', JStr ''Ada''),
                (''email'', JStr ''ada@example.com''), (''healthScore'', JNum 25)],
          JObj [(''id'', JStr ''7c9e6679-7425-40de-944b-e07fc1f90ae7''), (''name'', JStr ''Bob''),
                (''email'', JStr ''bob@example.com''), (''healthScore'', JNum 75)]])\<rparr>,
      [\<lparr>id_c = ''110ec58a-a0f2-4ac4-8393-c866d813b8d1'', name = Some (JStr ''Ada''),
        email = Some (JStr ''ada@example.com''), healthScore = 25\<rparr>,
       \<lparr>id_c = ''7c9e6679-7425-40de-944b-e07fc1f90ae7'', name = Some (JStr ''Bob''),
        email = Some (JStr ''bob@example.com''), healthScore = 75\<rparr>])"
  using list_customers
    [of "[]" "[POST_root ''110ec58a-a0f2-4ac4-8393-c866d813b8d1'' (1 / 4)
                  (Some (JObj [(''name'', JStr ''Ada''), (''email'', JStr ''ada@example.com'')])),
                GET_id ''7c9e6679-7425-40de-944b-e07fc1f90ae7'',
                POST_root ''7c9e6679-7425-40de-944b-e07fc1f90ae7'' (3 / 4)
                  (Some (JObj [(''name'', JStr ''Bob''), (''email'', JStr ''bob@example.com'')]))]"]
  by (simp add: eval_defs fmul_quarter fmul_three_quarters)

text \<open>
  C3. The lookup answers 200 with a stored record of the requested id when the store
  holds one, and 404 with the text \<^verbatim>\<open>Customer not found\<close> when it holds none; it
  has no other outcome.
\<close>

theorem get_by_id:
  "(if \<exists>c \<in> set customers. id_c c = rid
    then \<exists>c \<in> set customers. id_c c = rid \<and>
           router_get_id rid customers =
             (\<lparr>status = 200, payload = Json (customer_json c)\<rparr>, customers)
    else router_get_id rid customers =
           (\<lparr>status = 404, payload = Text ''Customer not found''\<rparr>, customers))"
proof (cases "find (\<lambda>c. id_c c = rid) customers")
  case None
  then have "\<not> (\<exists>c \<in> set customers. id_c c = rid)" by (simp add: find_None_iff)
  then show ?thesis using None by (simp add: router_get_id_def)
next
  case (Some c)
  then have "c \<in> set customers \<and> id_c c = rid"
    by (auto simp: find_Some_iff)
  then show ?thesis using Some by (auto simp: router_get_id_def)
qed

theorem get_by_id_witness:
  "router_get_id ''7c9e6679-7425-40de-944b-e07fc1f90ae7''
     [\<lparr>id_c = ''110ec58a-a0f2-4ac4-8393-c866d813b8d1'', name = Some (JStr ''Ada''),
       email = Some (JStr ''ada@example.com''), healthScore = 25\<rparr>,
      \<lparr>id_c = ''7c9e6679-7425-40de-944b-e07fc1f90ae7'', name = Some (JStr ''Bob''),
       email = Some (JStr ''bob@example.com''), healthScore = 75\<rparr>]
   = (\<lparr>status = 200,
       payload = Json (JObj [(''id'', JStr ''7c9e6679-7425-40de-944b-e07fc1f90ae7''),
                             (''name'', JStr ''Bob''), (''email'', JStr ''bob@example.com''),
                             (''healthScore'', JNum 75)])\<rparr>,
      [\<lparr>id_c = ''110ec58a-a0f2-4ac4-8393-c866d813b8d1'', name = Some (JStr ''Ada''),
        email = Some (JStr ''ada@example.com''), healthScore = 25\<rparr>,
       \<lparr>id_c = ''7c9e6679-7425-40de-944b-e07fc1f90ae7'', name = Some (JStr ''Bob''),
        email = Some (JStr ''bob@example.com''), healthScore = 75\<rparr>])
   \<and> router_get_id ''00000000-0000-4000-8000-000000000000''
     [\<lparr>id_c = ''110ec58a-a0f2-4ac4-8393-c866d813b8d1'', name = Some (JStr ''Ada''),
       email = Some (JStr ''ada@example.com''), healthScore = 25\<rparr>]
   = (\<lparr>status = 404, payload = Text ''Customer not found''\<rparr>,
      [\<lparr>id_c = ''110ec58a-a0f2-4ac4-8393-c866d813b8d1'', name = Some (JStr ''Ada''),
        email = Some (JStr ''ada@example.com''), healthScore = 25\<rparr>])"
  using get_by_id
    [of "[\<lparr>id_c = ''110ec58a-a0f2-4ac4-8393-c866d813b8d1'', name = Some (JStr ''Ada''),
       email = Some (JStr ''ada@example.com''), healthScore = 25\<rparr>,
      \<lparr>id_c = ''7c9e6679-7425-40de-944b-e07fc1f90ae7'', name = Some (JStr ''Bob''),
       email = Some (JStr ''bob@example.com''), healthScore = 75\<rparr>]"
      "''7c9e6679-7425-40de-944b-e07fc1f90ae7''"]
    get_by_id
    [of "[\<lparr>id_c = ''110ec58a-a0f2-4ac4-8393-c866d813b8d1'', name = Some (JStr ''Ada''),
       email = Some (JStr ''ada@example.com''), healthScore = 25\<rparr>]"
      "''00000000-0000-4000-8000-000000000000''"]
  by (simp add: customer_json_def opt_prop_def)

text \<open>
  C10. When several stored records carry the requested id, the lookup returns the one
  that was appended first: the record found has no record of that id before it.
\<close>

theorem find_first_match:
  assumes "customers = pre @ c # post" and "id_c c = rid"
    and "\<forall>x \<in> set pre. id_c x \<noteq> rid"
  shows "router_get_id rid customers =
           (\<lparr>status = 200, payload = Json (customer_json c)\<rparr>, customers)"
proof -
  have "find (\<lambda>c. id_c c = rid) (pre @ c # post) = Some c"
    using assms(2,3) by (induction pre) simp_all
  then show ?thesis using assms(1) by (simp add: router_get_id_def)
qed

theorem find_first_match_witness:
  "router_get_id ''110ec58a-a0f2-4ac4-8393-c866d813b8d1''
     [\<lparr>id_c = ''7c9e6679-7425-40de-944b-e07fc1f90ae7'', name = Some (JStr ''Bob''),
       email = Some (JStr ''bob@example.com''), healthScore = 75\<rparr>,
      \<lparr>id_c = ''110ec58a-a0f2-4ac4-8393-c866d813b8d1'', name = Some (JStr ''first''),
       email = None, healthScore = 25\<rparr>,
      \<lparr>id_c = ''110ec58a-a0f2-4ac4-8393-c866d813b8d1'', name = Some (JStr ''second''),
       email = None, healthScore = 50\<rparr>]
   = (\<lparr>status = 200,
       payload = Json (JObj [(''id'', JStr ''110ec58a-a0f2-4ac4-8393-c866d813b8d1''),
                             (''name'', JStr ''first''), (''healthScore'', JNum 25)])\<rparr>,
      [\<lparr>id_c = ''7c9e6679-7425-40de-944b-e07fc1f90ae7'', name = Some (JStr ''Bob''),
        email = Some (JStr ''bob@example.com''), healthScore = 75\<rparr>,
       \<lparr>id_c = ''110ec58a-a0f2-4ac4-8393-c866d813b8d1'', name = Some (JStr ''first''),
        email = None, healthScore = 25\<rparr>,
       \<lparr>id_c = ''110ec58a-a0f2-4ac4-8393-c866d813b8d1'', name = Some (JStr ''second''),
        email = None, healthScore = 50\<rparr>])"
  using find_first_match
    [of "[\<lparr>id_c = ''7c9e6679-7425-40de-944b-e07fc1f90ae7'', name = Some (JStr ''Bob''),
       email = Some (JStr ''bob@example.com''), healthScore = 75\<rparr>,
      \<lparr>id_c = ''110ec58a-a0f2-4ac4-8393-c866d813b8d1'', name = Some (JStr ''first''),
       email = None, healthScore = 25\<rparr>,
      \<lparr>id_c = ''110ec58a-a0f2-4ac4-8393-c866d813b8d1'', name = Some (JStr ''second''),
       email = None, healthScore = 50\<rparr>]"
      "[\<lparr>id_c = ''7c9e6679-7425-40de-944b-e07fc1f90ae7'', name = Some (JStr ''Bob''),
       email = Some (JStr ''bob@example.com''), healthScore = 75\<rparr>]"
      "\<lparr>id_c = ''110ec58a-a0f2-4ac4-8393-c866d813b8d1'', name = Some (JStr ''first''),
       email = None, healthScore = 25\<rparr>"
      "[\<lparr>id_c = ''110ec58a-a0f2-4ac4-8393-c866d813b8d1'', name = Some (JStr ''second''),
       email = None, healthScore = 50\<rparr>]"
      "''110ec58a-a0f2-4ac4-8393-c866d813b8d1''"]
  by (simp add: customer_json_def opt_prop_def)

section \<open>The store over a run\<close>

text \<open>
  C7. The store only grows at its end: after any run the old store is a prefix of the
  new one, so every record is still there, at its place and with its fields; the two GET
  handlers leave the store as it is.
\<close>

theorem store_append_only:
  "prefix customers (snd (run rqs customers))
   \<and> snd (app GET_root customers) = customers
   \<and> snd (app (GET_id rid) customers) = customers"
proof -
  obtain new where "snd (run rqs customers) = customers @ new"
    using run_appends by blast
  then have "prefix customers (snd (run rqs customers))" by simp
  then show ?thesis by (simp add: router_get_root_def get_id_store)
qed

theorem store_append_only_witness:
  "prefix
     [\<lparr>id_c = ''110ec58a-a0f2-4ac4-8393-c866d813b8d1'', name = Some (JStr ''Ada''),
       email = Some (JStr ''ada@example.com''), healthScore = 25\<rparr>]
     (snd (run
        [GET_root,
         POST_root ''7c9e6679-7425-40de-944b-e07fc1f90ae7'' (3 / 4)
           (Some (JObj [(''name'', JStr ''Bob''), (''email'', JStr ''bob@example.com'')])),
         GET_id ''110ec58a-a0f2-4ac4-8393-c866d813b8d1'',
         POST_root ''ffffffff-ffff-4fff-bfff-ffffffffffff'' (1 / 2) (Some JNull)]
        [\<lparr>id_c = ''110ec58a-a0f2-4ac4-8393-c866d813b8d1'', name = Some (JStr ''Ada''),
          email = Some (JStr ''ada@example.com''), healthScore = 25\<rparr>]))
   \<and> snd (run
        [GET_root,
         POST_root ''7c9e6679-7425-40de-944b-e07fc1f90ae7'' (3 / 4)
           (Some (JObj [(''name'', JStr ''Bob''), (''email'', JStr ''bob@example.com'')])),
         GET_id ''110ec58a-a0f2-4ac4-8393-c866d813b8d1'',
         POST_root ''ffffffff-ffff-4fff-bfff-ffffffffffff'' (1 / 2) (Some JNull)]
        [\<lparr>id_c = ''110ec58a-a0f2-4ac4-8393-c866d813b8d1'', name = Some (JStr ''Ada''),
          email = Some (JStr ''ada@example.com''), healthScore = 25\<rparr>])
     = [\<lparr>id_c = ''110ec58a-a0f2-4ac4-8393-c866d813b8d1'', name = Some (JStr ''Ada''),
         email = Some (JStr ''ada@example.com''), healthScore = 25\<rparr>,
        \<lparr>id_c = ''7c9e6679-7425-40de-944b-e07fc1f90ae7'', name = Some (JStr ''Bob''),
         email = Some (JStr ''bob@example.com''), healthScore = 75\<rparr>]"
  using store_append_only
    [of "[\<lparr>id_c = ''110ec58a-a0f2-4ac4-8393-c866d813b8d1'', name = Some (JStr ''Ada''),
          email = Some (JStr ''ada@example.com''), healthScore = 25\<rparr>]"
        "[GET_root,
         POST_root ''7c9e6679-7425-40de-944b-e07fc1f90ae7'' (3 / 4)
           (Some (JObj [(''name'', JStr ''Bob''), (''email'', JStr ''bob@example.com'')])),
         GET_id ''110ec58a-a0f2-4ac4-8393-c866d813b8d1'',
         POST_root ''ffffffff-ffff-4fff-bfff-ffffffffffff'' (1 / 2) (Some JNull)]"
        "''110ec58a-a0f2-4ac4-8393-c866d813b8d1''"]
  by (simp add: eval_defs fmul_three_quarters)

text \<open>
  C4, as stated, fails: the handler stores the value of \<^verbatim>\<open>uuidv4()\<close> without
  comparing it with the ids in the store. When two calls return the same value, two
  records share an id.
\<close>

theorem ids_unique_counterexample:
  "\<not> distinct (map id_c (snd (run
      [POST_root ''110ec58a-a0f2-4ac4-8393-c866d813b8d1'' (1 / 4)
         (Some (JObj [(''name'', JStr ''Ada''), (''email'', JStr ''ada@example.com'')])),
       POST_root ''110ec58a-a0f2-4ac4-8393-c866d813b8d1'' (3 / 4)
         (Some (JObj [(''name'', JStr ''Bob''), (''email'', JStr ''bob@example.com'')]))]
      customers_init)))"
  by (simp add: eval_defs)

text \<open>
  C4, amended. After a run from the empty store the ids of the stored records are the
  values the calls of \<^verbatim>\<open>uuidv4()\<close> returned, in call order: no two records share an
  id provided no two calls returned the same value. The handler enforces nothing itself:
  whatever the store holds, a parsed body is accepted and a record with the given uuid is
  appended.
\<close>

theorem ids_are_uuids:
  "map id_c (snd (run rqs customers_init)) = uuid_calls rqs
   \<and> (distinct (uuid_calls rqs) \<longrightarrow> distinct (map id_c (snd (run rqs customers_init))))
   \<and> (strict_json b \<longrightarrow>
        (\<exists>c. snd (app (POST_root u r (Some b)) customers) = customers @ [c] \<and> id_c c = u))"
proof -
  have "\<exists>c. snd (app (POST_root u r (Some b)) customers) = customers @ [c] \<and> id_c c = u"
    if sb: "strict_json b"
  proof -
    obtain nm em where "destructure_body (Some b) = Inr (nm, em)"
      using destructure_strict [OF sb] by blast
    then show ?thesis by (simp add: post_result newCustomer_def)
  qed
  then show ?thesis by (simp add: run_ids customers_init_def)
qed

theorem ids_are_uuids_witness:
  "distinct [''110ec58a-a0f2-4ac4-8393-c866d813b8d1'', ''7c9e6679-7425-40de-944b-e07fc1f90ae7'']
   \<and> map id_c (snd (run
      [POST_root ''110ec58a-a0f2-4ac4-8393-c866d813b8d1'' (1 / 4)
         (Some (JObj [(''name'', JStr ''Ada''), (''email'', JStr ''ada@example.com'')])),
       POST_root ''ffffffff-ffff-4fff-bfff-ffffffffffff'' (1 / 2) None,
       GET_root,
       POST_root ''7c9e6679-7425-40de-944b-e07fc1f90ae7'' (3 / 4)
         (Some (JObj [(''name'', JStr ''''), (''email'', JStr ''ada@example.com'')]))]
      customers_init))
     = [''110ec58a-a0f2-4ac4-8393-c866d813b8d1'', ''7c9e6679-7425-40de-944b-e07fc1f90ae7'']
   \<and> distinct (map id_c (snd (run
      [POST_root ''110ec58a-a0f2-4ac4-8393-c866d813b8d1'' (1 / 4)
         (Some (JObj [(''name'', JStr ''Ada''), (''email'', JStr ''ada@example.com'')])),
       POST_root ''ffffffff-ffff-4fff-bfff-ffffffffffff'' (1 / 2) None,
       GET_root,
       POST_root ''7c9e6679-7425-40de-944b-e07fc1f90ae7'' (3 / 4)
         (Some (JObj [(''name'', JStr ''''), (''email'', JStr ''ada@example.com'')]))]
      customers_init)))"
  using ids_are_uuids
    [of "[POST_root ''110ec58a-a0f2-4ac4-8393-c866d813b8d1'' (1 / 4)
         (Some (JObj [(''name'', JStr ''Ada''), (''email'', JStr ''ada@example.com'')])),
       POST_root ''ffffffff-ffff-4fff-bfff-ffffffffffff'' (1 / 2) None,
       GET_root,
       POST_root ''7c9e6679-7425-40de-944b-e07fc1f90ae7'' (3 / 4)
         (Some (JObj [(''name'', JStr ''''), (''email'', JStr ''ada@example.com'')]))]"]
  by simp

text \<open>
  C6, as stated, fails: the same POST twice, with \<^verbatim>\<open>uuidv4()\<close> and
  \<^verbatim>\<open>Math.random()\<close> returning the same values, stores the same record twice.
\<close>

theorem post_twice_counterexample:
  "snd (run
      [POST_root ''110ec58a-a0f2-4ac4-8393-c866d813b8d1'' (1 / 4)
         (Some (JObj [(''name'', JStr ''Test Customer''), (''email'', JStr ''test@example.com'')])),
       POST_root ''110ec58a-a0f2-4ac4-8393-c866d813b8d1'' (1 / 4)
         (Some (JObj [(''name'', JStr ''Test Customer''), (''email'', JStr ''test@example.com'')]))]
      customers_init)
   = [\<lparr>id_c = ''110ec58a-a0f2-4ac4-8393-c866d813b8d1'', name = Some (JStr ''Test Customer''),
       email = Some (JStr ''test@example.com''), healthScore = 25\<rparr>,
      \<lparr>id_c = ''110ec58a-a0f2-4ac4-8393-c866d813b8d1'', name = Some (JStr ''Test Customer''),
       email = Some (JStr ''test@example.com''), healthScore = 25\<rparr>]"
  by (simp add: eval_defs fmul_quarter)

text \<open>
  C6, amended. The same parsed body posted twice gives two 201 responses and two
  records appended in order, whose ids are the two values of \<^verbatim>\<open>uuidv4()\<close>: the
  records and their ids differ when these two values differ.
\<close>

theorem post_twice:
  assumes "strict_json b"
  shows "\<exists>c1 c2. run [POST_root u1 r1 (Some b), POST_root u2 r2 (Some b)] customers =
           ([\<lparr>status = 201, payload = Json (customer_json c1)\<rparr>,
             \<lparr>status = 201, payload = Json (customer_json c2)\<rparr>],
            customers @ [c1, c2])
         \<and> id_c c1 = u1 \<and> id_c c2 = u2
         \<and> (u1 \<noteq> u2 \<longrightarrow> id_c c1 \<noteq> id_c c2 \<and> c1 \<noteq> c2)"
proof -
  obtain nm em where d: "destructure_body (Some b) = Inr (nm, em)"
    using destructure_strict [OF assms] by blast
  let ?c1 = "newCustomer u1 nm em r1" and ?c2 = "newCustomer u2 nm em r2"
  have "run [POST_root u1 r1 (Some b), POST_root u2 r2 (Some b)] customers =
           ([\<lparr>status = 201, payload = Json (customer_json ?c1)\<rparr>,
             \<lparr>status = 201, payload = Json (customer_json ?c2)\<rparr>],
            customers @ [?c1, ?c2])
        \<and> id_c ?c1 = u1 \<and> id_c ?c2 = u2
        \<and> (u1 \<noteq> u2 \<longrightarrow> id_c ?c1 \<noteq> id_c ?c2 \<and> ?c1 \<noteq> ?c2)"
    by (auto simp: post_result [OF d] newCustomer_def)
  then show ?thesis by (intro exI)
qed

theorem post_twice_witness:
  "strict_json (JObj [(''name'', JStr ''Test Customer''), (''email'', JStr ''test@example.com'')])
   \<and> ''110ec58a-a0f2-4ac4-8393-c866d813b8d1'' \<noteq> ''7c9e6679-7425-40de-944b-e07fc1f90ae7''
   \<and> run
      [POST_root ''110ec58a-a0f2-4ac4-8393-c866d813b8d1'' (1 / 4)
         (Some (JObj [(''name'', JStr ''Test Customer''), (''email'', JStr ''test@example.com'')])),
       POST_root ''7c9e6679-7425-40de-944b-e07fc1f90ae7'' (1 / 4)
         (Some (JObj [(''name'', JStr ''Test Customer''), (''email'', JStr ''test@example.com'')]))]
      []
   = ([\<lparr>status = 201,
        payload = Json (JObj [(''id'', JStr ''110ec58a-a0f2-4ac4-8393-c866d813b8d1''),
                              (''name'', JStr ''Test Customer''),
                              (''email'', JStr ''test@example.com''),
                              (''healthScore'', JNum 25)])\<rparr>,
       \<lparr>status = 201,
        payload = Json (JObj [(''id'', JStr ''7c9e6679-7425-40de-944b-e07fc1f90ae7''),
                              (''name'', JStr ''Test Customer''),
                              (''email'', JStr ''test@example.com''),
                              (''healthScore'', JNum 25)])\<rparr>],
      [\<lparr>id_c = ''110ec58a-a0f2-4ac4-8393-c866d813b8d1'', name = Some (JStr ''Test Customer''),
        email = Some (JStr ''test@example.com''), healthScore = 25\<rparr>,
       \<lparr>id_c = ''7c9e6679-7425-40de-944b-e07fc1f90ae7'', name = Some (JStr ''Test Customer''),
        email = Some (JStr ''test@example.com''), healthScore = 25\<rparr>])"
  using post_twice
    [of "JObj [(''name'', JStr ''Test Customer''), (''email'', JStr ''test@example.com'')]"
        "''110ec58a-a0f2-4ac4-8393-c866d813b8d1''" "1 / 4"
        "''7c9e6679-7425-40de-944b-e07fc1f90ae7''" "1 / 4" "[]"]
  by (simp add: eval_defs fmul_quarter)

end
